theory Spec2Isabelle
  imports Main "HOL-Library.Sublist"
begin

section \<open>Data model of \<open>app.py\<close>\<close>

text \<open>
  A Python \<open>str\<close> is modelled as a HOL \<open>string\<close>: one \<open>char\<close> per code point, for the
  code points U+0000 to U+00FF. On that range \<open>str.lower\<close> works character by
  character: the letters A to Z and the upper-case letters of the Latin-1 block
  (U+00C0 to U+00DE without the multiplication sign U+00D7) move up by 32, every other
  code point stays. Strings with code points beyond U+00FF are outside the model: there
  \<open>str.lower\<close> depends on the context (the final sigma) and can change the length
  (U+0130).
\<close>

definition lower_char :: "char \<Rightarrow> char" where
  "lower_char c =
     (let n = (of_char c :: nat)
      in if (65 \<le> n \<and> n \<le> 90) \<or> (192 \<le> n \<and> n \<le> 222 \<and> n \<noteq> 215)
         then char_of (n + 32) else c)"

definition lower :: "string \<Rightarrow> string" where
  "lower s = map lower_char s"



text \<open>
  The operator \<open>a in b\<close> on two strings: \<open>a\<close> occurs in \<open>b\<close> as a contiguous run,
  searched from the left.
\<close>

fun str_in :: "string \<Rightarrow> string \<Rightarrow> bool" where
  "str_in a [] = (a = [])"
| "str_in a (c # cs) = (prefix a (c # cs) \<or> str_in a cs)"

text \<open>
  The values the handler builds and receives: JSON-like Python values. A \<open>dict\<close> keeps
  its insertion order, so it is an association list; \<open>map_of\<close> reads a key.
\<close>

datatype pyval =
    PNone
  | PStr string
  | PInt int
  | PList "pyval list"
  | PDict "(string \<times> pyval) list"

type_synonym pydict = "(string \<times> pyval) list"

datatype error = AttributeError

text \<open>
  An entry of the global \<open>docs\<close> as \<open>DocumentSchema\<close> (lines 82 to 86) types it:
  \<open>fetch_o365_documents\<close> appends dictionaries with exactly the keys \<open>name\<close>, \<open>site\<close>,
  \<open>url\<close> and \<open>content\<close>, and the schema declares the four of them \<open>str\<close>. The
  entries that \<open>fetch_o365_documents\<close> can really build are wider; they are the record
  \<open>entry\<close> below.
\<close>

record document =
  name :: string
  site :: string
  url :: string
  content :: string

text \<open>
  The dictionary appended by \<open>fetch_o365_documents\<close> (lines 63 to 68) for a file
  \<open>file_name\<close> of the site \<open>site_name\<close> with link \<open>web_url\<close>.
\<close>

definition mk_document :: "string \<Rightarrow> string \<Rightarrow> string \<Rightarrow> document" where
  "mk_document file_name site_name web_url =
     \<lparr>name = file_name, site = site_name, url = web_url,
      content = ''Document from '' @ site_name @ '': '' @ file_name\<rparr>"

section \<open>The handler \<open>search_documents\<close>\<close>

text \<open>
  The method call \<open>v.lower()\<close> on a value, as in \<open>query.lower()\<close>: only a \<open>str\<close> has the
  method; any other value raises.
\<close>

fun query_lower_of :: "pyval \<Rightarrow> error + string" where
  "query_lower_of (PStr s) = Inr (lower s)"
| "query_lower_of _ = Inl AttributeError"

text \<open>The filter condition of the comprehension (line 126).\<close>

definition doc_matches :: "string \<Rightarrow> document \<Rightarrow> bool" where
  "doc_matches query_lower d =
     (str_in query_lower (lower (name d)) \<or> str_in query_lower (lower (site d)))"

text \<open>The dictionary built for every selected entry (line 124).\<close>

definition reduced :: "document \<Rightarrow> pyval" where
  "reduced d = PDict [(''name'', PStr (name d)), (''site'', PStr (site d)), (''url'', PStr (url d))]"

text \<open>The list comprehension bound to \<open>matching_docs\<close> (lines 123 to 127).\<close>

definition matching_docs :: "string \<Rightarrow> document list \<Rightarrow> pyval list" where
  "matching_docs query_lower docs = [reduced d. d \<leftarrow> docs, doc_matches query_lower d]"

text \<open>
  \<open>search_documents(query)\<close>, with the module global \<open>docs\<close> as a second argument.
  \<open>not docs\<close> holds for the empty list only; \<open>matching_docs[:5]\<close> is \<open>take 5\<close>.
\<close>

definition search_documents :: "pyval \<Rightarrow> document list \<Rightarrow> error + pydict" where
  "search_documents query docs =
     (if docs = [] then
        Inr [(''status'', PStr ''No documents found''), (''count'', PInt 0), (''query'', query)]
      else
        case query_lower_of query of
          Inl e \<Rightarrow> Inl e
        | Inr query_lower \<Rightarrow>
            Inr [(''status'', PStr ''success''),
                 (''query'', query),
                 (''total_documents'', PInt (int (length docs))),
                 (''matching_documents'', PInt (int (length (matching_docs query_lower docs)))),
                 (''results'', PList (take 5 (matching_docs query_lower docs)))])"

text \<open>Reading a key of the returned dictionary; \<open>None\<close> when the key is absent or the call raised.\<close>

definition field :: "error + pydict \<Rightarrow> string \<Rightarrow> pyval option" where
  "field res k = (case res of Inl e \<Rightarrow> None | Inr r \<Rightarrow> map_of r k)"

section \<open>The handler on the entries that \<open>fetch_o365_documents\<close> builds\<close>

text \<open>
  \<open>d.get(k, dflt)\<close>: the default is returned for a missing key only; a key that is
  present with the value \<open>None\<close> gives \<open>None\<close>.
\<close>

definition dict_get :: "pydict \<Rightarrow> string \<Rightarrow> pyval \<Rightarrow> pyval" where
  "dict_get d k dflt = (case map_of d k of None \<Rightarrow> dflt | Some v \<Rightarrow> v)"

text \<open>
  The dictionary of lines 63 to 68 with the types its values can have. \<open>name\<close> has
  passed \<open>file_name.endswith\<close> (line 62) and \<open>content\<close> is an f-string, so both are
  \<open>str\<close>. \<open>site\<close> is \<open>site.get("displayName", "Unknown")\<close> (line 49) and \<open>url\<close> is
  \<open>file.get("webUrl", "")\<close> (line 66): whatever JSON value the response holds under
  the key, \<open>None\<close> for a \<open>null\<close>.
\<close>

record entry =
  entry_name :: string
  entry_site :: pyval
  entry_url :: pyval
  entry_content :: string

text \<open>An entry typed as \<open>DocumentSchema\<close> declares, among all entries.\<close>

definition entry_of :: "document \<Rightarrow> entry" where
  "entry_of d =
     \<lparr>entry_name = name d, entry_site = PStr (site d), entry_url = PStr (url d),
      entry_content = content d\<rparr>"

text \<open>
  The filter condition of line 126 on such an entry. \<open>or\<close> evaluates its right operand
  only when the left one is false; \<open>d["site"].lower()\<close> raises when \<open>site\<close> is not a
  \<open>str\<close>.
\<close>

definition doc_matches_raw :: "string \<Rightarrow> entry \<Rightarrow> error + bool" where
  "doc_matches_raw query_lower d =
     (if str_in query_lower (lower (entry_name d)) then Inr True
      else case query_lower_of (entry_site d) of
             Inl e \<Rightarrow> Inl e
           | Inr site_lower \<Rightarrow> Inr (str_in query_lower site_lower))"

definition reduced_raw :: "entry \<Rightarrow> pyval" where
  "reduced_raw d =
     PDict [(''name'', PStr (entry_name d)), (''site'', entry_site d), (''url'', entry_url d)]"

text \<open>The comprehension of lines 123 to 127: the first entry whose condition raises ends it.\<close>

fun matching_docs_raw :: "string \<Rightarrow> entry list \<Rightarrow> error + pyval list" where
  "matching_docs_raw query_lower [] = Inr []"
| "matching_docs_raw query_lower (d # docs) =
     (case doc_matches_raw query_lower d of
        Inl e \<Rightarrow> Inl e
      | Inr selected \<Rightarrow>
          (case matching_docs_raw query_lower docs of
             Inl e \<Rightarrow> Inl e
           | Inr rest \<Rightarrow> Inr (if selected then reduced_raw d # rest else rest)))"

definition search_documents_raw :: "pyval \<Rightarrow> entry list \<Rightarrow> error + pydict" where
  "search_documents_raw query docs =
     (if docs = [] then
        Inr [(''status'', PStr ''No documents found''), (''count'', PInt 0), (''query'', query)]
      else
        case query_lower_of query of
          Inl e \<Rightarrow> Inl e
        | Inr query_lower \<Rightarrow>
            (case matching_docs_raw query_lower docs of
               Inl e \<Rightarrow> Inl e
             | Inr matching \<Rightarrow>
                 Inr [(''status'', PStr ''success''),
                      (''query'', query),
                      (''total_documents'', PInt (int (length docs))),
                      (''matching_documents'', PInt (int (length matching))),
                      (''results'', PList (take 5 matching))]))"

section \<open>Basic facts\<close>

lemma matching_docs_filter:
  "matching_docs ql docs = map reduced (filter (doc_matches ql) docs)"
  by (induction docs) (simp_all add: matching_docs_def)



lemma str_in_empty: "str_in [] b"
  by (cases b) simp_all

lemma lower_empty: "lower [] = []"
  by (simp add: lower_def)








text \<open>The two shapes of the returned dictionary, key by key.\<close>

lemma field_empty_store:
  "field (search_documents query []) k =
     map_of [(''status'', PStr ''No documents found''), (''count'', PInt 0), (''query'', query)] k"
  by (simp add: search_documents_def field_def)

lemma field_nonempty_store:
  "docs \<noteq> [] \<Longrightarrow> field (search_documents (PStr q) docs) k =
     map_of [(''status'', PStr ''success''),
             (''query'', PStr q),
             (''total_documents'', PInt (int (length docs))),
             (''matching_documents'', PInt (int (length (matching_docs (lower q) docs)))),
             (''results'', PList (take 5 (matching_docs (lower q) docs)))] k"
  by (simp add: search_documents_def field_def)

text \<open>
  The error branch of the model is live: with documents loaded, a query that is not a
  string makes \<open>query.lower()\<close> raise.
\<close>

lemma search_documents_non_string:
  "search_documents (PInt 3) [mk_document ''report.docx'' ''Finance'' ''u''] = Inl AttributeError"
  by (simp add: search_documents_def)

text \<open>
  On entries typed as \<open>DocumentSchema\<close> declares, the handler on entries is the handler
  on documents.
\<close>

lemma matching_docs_raw_typed:
  "matching_docs_raw ql (map entry_of docs) = Inr (matching_docs ql docs)"
  by (induction docs)
     (simp_all add: matching_docs_def doc_matches_raw_def entry_of_def doc_matches_def
        reduced_raw_def reduced_def)

lemma search_documents_raw_typed:
  "search_documents_raw query (map entry_of docs) = search_documents query docs"
  by (simp add: search_documents_raw_def search_documents_def matching_docs_raw_typed
      split: sum.splits)

text \<open>With a string under every \<open>site\<close> key, a string query never raises.\<close>

lemma matching_docs_raw_str_sites:
  "list_all (\<lambda>d. \<exists>s. entry_site d = PStr s) docs \<Longrightarrow> \<exists>ms. matching_docs_raw ql docs = Inr ms"
  by (induction docs) (auto simp: doc_matches_raw_def)

lemma search_documents_raw_str_sites:
  "list_all (\<lambda>d. \<exists>s. entry_site d = PStr s) docs \<Longrightarrow>
     \<exists>r. search_documents_raw (PStr q) docs = Inr r"
  using matching_docs_raw_str_sites [of docs "lower q"]
  by (auto simp: search_documents_raw_def)

section \<open>The response of \<open>search_documents\<close>\<close>

text \<open>
  C1, as stated (status \<open>no_documents\<close> for an empty document list), fails: for the query
  \<open>anything\<close> and no documents the status is the string \<open>No documents found\<close>.
\<close>

theorem status_no_documents_counterexample:
  "field (search_documents (PStr ''anything'') []) ''status'' \<noteq> Some (PStr ''no_documents'')"
  by (simp add: field_empty_store)

text \<open>
  C1 (amended): for every query string, the status is \<open>No documents found\<close> when the
  document list is empty and \<open>success\<close> when it is not; there is no third status.
\<close>

theorem search_documents_status:
  "field (search_documents (PStr q) docs) ''status'' =
     Some (PStr (if docs = [] then ''No documents found'' else ''success''))"
  by (cases "docs = []") (simp_all add: field_empty_store field_nonempty_store)

theorem search_documents_status_witness:
  "field (search_documents (PStr ''anything'') []) ''status'' = Some (PStr ''No documents found'') \<and>
   field (search_documents (PStr ''report'') [mk_document ''report.docx'' ''Finance'' ''u''])
     ''status'' = Some (PStr ''success'')"
  using search_documents_status [of "''anything''" "[]"]
    search_documents_status [of "''report''" "[mk_document ''report.docx'' ''Finance'' ''u'']"]
  by simp

text \<open>
  C2, as stated (a \<open>total_documents\<close> key in every response, 0 for an empty list), fails:
  the response for an empty document list has no such key.
\<close>

theorem total_documents_counterexample:
  "field (search_documents (PStr ''anything'') []) ''total_documents'' = None"
  by (simp add: field_empty_store)

text \<open>
  C2 (amended): for every query string, a non-empty document list gives
  \<open>total_documents = len(docs)\<close>; an empty one gives a response without
  \<open>total_documents\<close> that carries \<open>count = 0\<close> instead.
\<close>

theorem search_documents_total:
  "field (search_documents (PStr q) docs) ''total_documents'' =
     (if docs = [] then None else Some (PInt (int (length docs)))) \<and>
   field (search_documents (PStr q) docs) ''count'' =
     (if docs = [] then Some (PInt 0) else None)"
  by (cases "docs = []") (simp_all add: field_empty_store field_nonempty_store)

theorem search_documents_total_witness:
  "field (search_documents (PStr ''anything'') []) ''count'' = Some (PInt 0) \<and>
   field (search_documents (PStr ''report'')
      [mk_document ''report.docx'' ''Finance'' ''u'', mk_document ''notes.txt'' ''HR'' ''v''])
     ''total_documents'' = Some (PInt 2)"
  using search_documents_total [of "''anything''" "[]"]
    search_documents_total [of "''report''"
      "[mk_document ''report.docx'' ''Finance'' ''u'', mk_document ''notes.txt'' ''HR'' ''v'']"]
  by simp

text \<open>
  C9: the \<open>query\<close> key of the response is the query string as it was passed, whether or
  not documents are loaded.
\<close>

theorem search_documents_query_verbatim:
  "field (search_documents (PStr q) docs) ''query'' = Some (PStr q)"
  by (cases "docs = []") (simp_all add: field_empty_store field_nonempty_store)

theorem search_documents_query_verbatim_witness:
  "field (search_documents (PStr ''  Fin ANCE '') []) ''query'' = Some (PStr ''  Fin ANCE '') \<and>
   field (search_documents (PStr ''  Fin ANCE '') [mk_document ''report.docx'' ''Finance'' ''u''])
     ''query'' = Some (PStr ''  Fin ANCE '')"
  using search_documents_query_verbatim [of "''  Fin ANCE ''" "[]"]
    search_documents_query_verbatim
      [of "''  Fin ANCE ''" "[mk_document ''report.docx'' ''Finance'' ''u'']"]
  by simp

text \<open>
  C8 (for every string query, the handler returns a result and raises nothing) fails on
  the code. \<open>DocumentSchema\<close> declares \<open>site\<close> a \<open>str\<close> and line 49 gives it the default
  \<open>Unknown\<close>, but a site whose \<open>displayName\<close> is \<open>null\<close> puts \<open>None\<close> under the key.
  With the file \<open>notes.txt\<close> of such a site loaded, the query \<open>report\<close> is not in the
  name, line 126 calls \<open>lower\<close> on \<open>None\<close>, and the handler raises \<open>AttributeError\<close>.
\<close>

theorem search_documents_none_site_raises:
  "dict_get [(''id'', PStr ''s1''), (''displayName'', PNone)] ''displayName'' (PStr ''Unknown'')
     = PNone \<and>
   search_documents_raw (PStr ''report'')
     [\<lparr>entry_name = ''notes.txt'', entry_site = PNone, entry_url = PStr ''u'',
       entry_content = ''Document from None: notes.txt''\<rparr>] = Inl AttributeError"
proof
  show "dict_get [(''id'', PStr ''s1''), (''displayName'', PNone)] ''displayName'' (PStr ''Unknown'')
     = PNone"
    by (simp add: dict_get_def)
  show "search_documents_raw (PStr ''report'')
     [\<lparr>entry_name = ''notes.txt'', entry_site = PNone, entry_url = PStr ''u'',
       entry_content = ''Document from None: notes.txt''\<rparr>] = Inl AttributeError"
    by code_simp
qed

section \<open>The matcher\<close>



text \<open>
  C5: \<open>matching_docs\<close> is the list of selected entries in the order of the document
  list, each reduced: a subsequence of the reduced document list, and the selection
  itself a subsequence of the document list.
\<close>

theorem matching_docs_subseq:
  "subseq (matching_docs (lower q) docs) (map reduced docs) \<and>
   matching_docs (lower q) docs = map reduced (filter (doc_matches (lower q)) docs) \<and>
   subseq (filter (doc_matches (lower q)) docs) docs"
  by (simp add: matching_docs_filter subseq_map)

theorem matching_docs_subseq_witness:
  "matching_docs (lower ''FIN'')
     [mk_document ''report.docx'' ''Finance'' ''u'', mk_document ''notes.txt'' ''HR'' ''v'',
      mk_document ''final.md'' ''Legal'' ''w''] =
     [reduced (mk_document ''report.docx'' ''Finance'' ''u''),
      reduced (mk_document ''final.md'' ''Legal'' ''w'')] \<and>
   subseq
     [reduced (mk_document ''report.docx'' ''Finance'' ''u''),
      reduced (mk_document ''final.md'' ''Legal'' ''w'')]
     (map reduced
       [mk_document ''report.docx'' ''Finance'' ''u'', mk_document ''notes.txt'' ''HR'' ''v'',
        mk_document ''final.md'' ''Legal'' ''w''])"
proof -
  let ?docs = "[mk_document ''report.docx'' ''Finance'' ''u'', mk_document ''notes.txt'' ''HR'' ''v'',
      mk_document ''final.md'' ''Legal'' ''w'']"
  have sel: "filter (doc_matches (lower ''FIN'')) ?docs =
     [mk_document ''report.docx'' ''Finance'' ''u'', mk_document ''final.md'' ''Legal'' ''w'']"
    by code_simp
  have sub: "subseq (matching_docs (lower ''FIN'') ?docs) (map reduced ?docs)"
    using matching_docs_subseq [of "''FIN''" ?docs] by (rule conjunct1)
  have "matching_docs (lower ''FIN'') ?docs = map reduced (filter (doc_matches (lower ''FIN'')) ?docs)"
    using matching_docs_subseq [of "''FIN''" ?docs] by (rule conjunct1 [OF conjunct2])
  then have eq: "matching_docs (lower ''FIN'') ?docs =
     [reduced (mk_document ''report.docx'' ''Finance'' ''u''),
      reduced (mk_document ''final.md'' ''Legal'' ''w'')]"
    by (simp only: sel list.map)
  from sub have "subseq
     [reduced (mk_document ''report.docx'' ''Finance'' ''u''),
      reduced (mk_document ''final.md'' ''Legal'' ''w'')] (map reduced ?docs)"
    by (simp only: eq)
  with eq show ?thesis by (rule conjI)
qed

text \<open>
  C6: the empty query selects every entry, so \<open>matching_docs\<close> is the whole document
  list (each entry reduced), and with a non-empty list \<open>matching_documents\<close> and
  \<open>total_documents\<close> are both its length.
\<close>

theorem empty_query_matches_all:
  "filter (doc_matches (lower '''')) docs = docs \<and>
   matching_docs (lower '''') docs = map reduced docs \<and>
   (docs \<noteq> [] \<longrightarrow>
      field (search_documents (PStr '''') docs) ''matching_documents'' = Some (PInt (int (length docs))) \<and>
      field (search_documents (PStr '''') docs) ''total_documents'' = Some (PInt (int (length docs))))"
proof -
  have all: "filter (doc_matches (lower '''')) docs = docs"
    by (simp add: doc_matches_def lower_empty str_in_empty)
  then have m: "matching_docs (lower '''') docs = map reduced docs"
    by (simp add: matching_docs_filter)
  show ?thesis using all m by (simp add: field_nonempty_store)
qed

theorem empty_query_matches_all_witness:
  "[mk_document ''report.docx'' ''Finance'' ''u'', mk_document ''notes.txt'' ''HR'' ''v''] \<noteq> [] \<and>
   field (search_documents (PStr '''')
      [mk_document ''report.docx'' ''Finance'' ''u'', mk_document ''notes.txt'' ''HR'' ''v''])
     ''matching_documents'' = Some (PInt 2) \<and>
   field (search_documents (PStr '''')
      [mk_document ''report.docx'' ''Finance'' ''u'', mk_document ''notes.txt'' ''HR'' ''v''])
     ''total_documents'' = Some (PInt 2)"
  using empty_query_matches_all
    [of "[mk_document ''report.docx'' ''Finance'' ''u'', mk_document ''notes.txt'' ''HR'' ''v'']"]
  by simp




section \<open>Truncation and the empty selection\<close>

text \<open>
  C4, as stated (a \<open>results\<close> key in every response), fails: the response for an empty
  document list has no \<open>results\<close> key.
\<close>

theorem results_counterexample:
  "field (search_documents (PStr ''anything'') []) ''results'' = None"
  by (simp add: field_empty_store)

text \<open>
  C4 (amended): with a non-empty document list, \<open>results\<close> is the first 5 entries of
  \<open>matching_docs\<close>, which lists the selected entries in the order of the document list,
  each as a dictionary of its \<open>name\<close>, \<open>site\<close> and \<open>url\<close> only; \<open>matching_documents\<close>
  is the length of \<open>matching_docs\<close> before the cut, so \<open>results\<close> has at most 5
  entries and never more than \<open>matching_documents\<close>. With an empty document list the
  response has no \<open>results\<close> key, whatever the query.
\<close>

theorem search_documents_results:
  assumes "docs \<noteq> []"
  shows "field (search_documents (PStr q) docs) ''results'' =
           Some (PList (take 5 (matching_docs (lower q) docs))) \<and>
         field (search_documents (PStr q) docs) ''matching_documents'' =
           Some (PInt (int (length (matching_docs (lower q) docs)))) \<and>
         matching_docs (lower q) docs =
           map (\<lambda>d. PDict [(''name'', PStr (name d)), (''site'', PStr (site d)), (''url'', PStr (url d))])
             (filter (doc_matches (lower q)) docs) \<and>
         length (take 5 (matching_docs (lower q) docs)) \<le> 5 \<and>
         length (take 5 (matching_docs (lower q) docs)) \<le> length (matching_docs (lower q) docs) \<and>
         field (search_documents (PStr q) []) ''results'' = None"
proof -
  have "reduced = (\<lambda>d. PDict [(''name'', PStr (name d)), (''site'', PStr (site d)), (''url'', PStr (url d))])"
    by (rule ext) (simp add: reduced_def)
  then have "matching_docs (lower q) docs =
           map (\<lambda>d. PDict [(''name'', PStr (name d)), (''site'', PStr (site d)), (''url'', PStr (url d))])
             (filter (doc_matches (lower q)) docs)"
    by (simp only: matching_docs_filter)
  then show ?thesis using assms
    by (simp add: field_nonempty_store field_empty_store)
qed

text \<open>Seven files of the site \<open>Finance\<close>, all selected by \<open>finance\<close>: seven counted, five returned.\<close>

theorem search_documents_results_witness:
  "map (\<lambda>n. mk_document n ''Finance'' ''u'')
     [''a.txt'', ''b.txt'', ''c.txt'', ''d.txt'', ''e.txt'', ''f.txt'', ''g.txt''] \<noteq> [] \<and>
   field (search_documents (PStr ''finance'')
     (map (\<lambda>n. mk_document n ''Finance'' ''u'')
       [''a.txt'', ''b.txt'', ''c.txt'', ''d.txt'', ''e.txt'', ''f.txt'', ''g.txt'']))
     ''matching_documents'' = Some (PInt 7) \<and>
   field (search_documents (PStr ''finance'')
     (map (\<lambda>n. mk_document n ''Finance'' ''u'')
       [''a.txt'', ''b.txt'', ''c.txt'', ''d.txt'', ''e.txt'', ''f.txt'', ''g.txt'']))
     ''results'' =
     Some (PList (map (\<lambda>n. reduced (mk_document n ''Finance'' ''u''))
       [''a.txt'', ''b.txt'', ''c.txt'', ''d.txt'', ''e.txt'']))"
proof -
  let ?docs = "map (\<lambda>n. mk_document n ''Finance'' ''u'')
     [''a.txt'', ''b.txt'', ''c.txt'', ''d.txt'', ''e.txt'', ''f.txt'', ''g.txt'']"
  have ne: "?docs \<noteq> []" by simp
  have m: "matching_docs (lower ''finance'') ?docs =
      map (\<lambda>n. reduced (mk_document n ''Finance'' ''u''))
        [''a.txt'', ''b.txt'', ''c.txt'', ''d.txt'', ''e.txt'', ''f.txt'', ''g.txt'']"
    by code_simp
  note r = search_documents_results [OF ne, of "''finance''"]
  have "field (search_documents (PStr ''finance'') ?docs) ''results'' =
           Some (PList (take 5 (matching_docs (lower ''finance'') ?docs)))"
    using r by (rule conjunct1)
  then have res: "field (search_documents (PStr ''finance'') ?docs) ''results'' =
     Some (PList (map (\<lambda>n. reduced (mk_document n ''Finance'' ''u''))
       [''a.txt'', ''b.txt'', ''c.txt'', ''d.txt'', ''e.txt'']))"
    unfolding m by simp
  have "field (search_documents (PStr ''finance'') ?docs) ''matching_documents'' =
           Some (PInt (int (length (matching_docs (lower ''finance'') ?docs))))"
    using r by (rule conjunct1 [OF conjunct2])
  then have cnt: "field (search_documents (PStr ''finance'') ?docs) ''matching_documents'' =
           Some (PInt 7)"
    unfolding m by simp
  show ?thesis using ne cnt res by (intro conjI)
qed

text \<open>
  C10: with a non-empty document list and a query string that selects no entry, the
  status is \<open>success\<close>, \<open>matching_documents\<close> is 0 and \<open>results\<close> is the empty list.
\<close>

theorem search_documents_no_match:
  assumes "docs \<noteq> []"
    and "\<forall>d\<in>set docs. \<not> str_in (lower q) (lower (name d)) \<and> \<not> str_in (lower q) (lower (site d))"
  shows "field (search_documents (PStr q) docs) ''status'' = Some (PStr ''success'') \<and>
         field (search_documents (PStr q) docs) ''matching_documents'' = Some (PInt 0) \<and>
         field (search_documents (PStr q) docs) ''results'' = Some (PList [])"
proof -
  have "filter (doc_matches (lower q)) docs = []"
    using assms(2) by (simp add: doc_matches_def)
  then have "matching_docs (lower q) docs = []"
    by (simp add: matching_docs_filter)
  then show ?thesis using assms(1) by (simp add: field_nonempty_store)
qed

theorem search_documents_no_match_witness:
  "[mk_document ''report.docx'' ''Finance'' ''u''] \<noteq> [] \<and>
   \<not> str_in (lower ''zebra'') (lower (name (mk_document ''report.docx'' ''Finance'' ''u''))) \<and>
   \<not> str_in (lower ''zebra'') (lower (site (mk_document ''report.docx'' ''Finance'' ''u''))) \<and>
   field (search_documents (PStr ''zebra'') [mk_document ''report.docx'' ''Finance'' ''u''])
     ''status'' = Some (PStr ''success'') \<and>
   field (search_documents (PStr ''zebra'') [mk_document ''report.docx'' ''Finance'' ''u''])
     ''matching_documents'' = Some (PInt 0) \<and>
   field (search_documents (PStr ''zebra'') [mk_document ''report.docx'' ''Finance'' ''u''])
     ''results'' = Some (PList [])"
proof -
  have ne: "[mk_document ''report.docx'' ''Finance'' ''u''] \<noteq> []" by simp
  have n1: "\<not> str_in (lower ''zebra'') (lower (name (mk_document ''report.docx'' ''Finance'' ''u'')))"
    by code_simp
  have n2: "\<not> str_in (lower ''zebra'') (lower (site (mk_document ''report.docx'' ''Finance'' ''u'')))"
    by code_simp
  from n1 n2 have no: "\<forall>d\<in>set [mk_document ''report.docx'' ''Finance'' ''u''].
      \<not> str_in (lower ''zebra'') (lower (name d)) \<and> \<not> str_in (lower ''zebra'') (lower (site d))"
    by simp
  from ne n1 n2 search_documents_no_match [OF ne no]
  show ?thesis by (intro conjI) (erule conjE | assumption)+
qed

end
